theory Spec2Isabelle
  imports Main
begin

section \<open>The caffeine SNP report script (snps.py)\<close>

text \<open>
  The script runs a fixed sequence of shell commands, then looks up five SNP positions in
  the annotated VCF, writes one CSV row per SNP, and finally rewrites the genotype column
  of the CSV. The embedding follows \<^verbatim>\<open>main\<close> statement by statement.

  \<^item> A Python \<^verbatim>\<open>str\<close> is a \<^typ>\<open>string\<close>; a character is a code point below 256.
  \<^item> An exception is a value of \<open>error\<close>; a computation that may raise returns
    \<open>error + 'a\<close> with \<open>Inl\<close> for the exception.
  \<^item> The outside world is a record \<open>env\<close>: the exit status of every shell command line
    and the text that the position query prints.
  \<^item> The file \<^verbatim>\<open>snp_report.csv\<close> is the list of rows that \<^verbatim>\<open>csv.writer\<close> was given and
    that \<^verbatim>\<open>csv.reader\<close> yields; a row is a list of fields.
  \<^item> Progress messages on stdout and the removal of temporary files are left out: no
    later statement of the script reads them.
\<close>

subsection \<open>Exceptions and sequencing\<close>

datatype error =
    CalledProcessError int string
  | IndexError
  | StopIteration

definition and_then :: "error + 'a \<Rightarrow> ('a \<Rightarrow> error + 'b) \<Rightarrow> error + 'b" where
  "and_then m f = (case m of Inl e \<Rightarrow> Inl e | Inr v \<Rightarrow> f v)"

subsection \<open>List indexing\<close>

text \<open>\<^verbatim>\<open>xs[i]\<close> and \<^verbatim>\<open>xs[i] = v\<close> for a non-negative constant \<open>i\<close>: out of range raises.\<close>

definition py_get :: "'a list \<Rightarrow> nat \<Rightarrow> error + 'a" where
  "py_get xs i = (if i < length xs then Inr (xs ! i) else Inl IndexError)"

definition py_set :: "'a list \<Rightarrow> nat \<Rightarrow> 'a \<Rightarrow> error + 'a list" where
  "py_set xs i v = (if i < length xs then Inr (xs[i := v]) else Inl IndexError)"

subsection \<open>String operations\<close>

definition TAB :: char where
  "TAB = CHR 0x09"

definition LF :: char where
  "LF = CHR 0x0A"

definition CR :: char where
  "CR = CHR 0x0D"

text \<open>\<^verbatim>\<open>str.isspace\<close> on one character, for the code points below 256.\<close>

definition isspace :: "char \<Rightarrow> bool" where
  "isspace c = (c \<in> set [CHR 0x09, CHR 0x0A, CHR 0x0B, CHR 0x0C, CHR 0x0D,
                           CHR 0x1C, CHR 0x1D, CHR 0x1E, CHR 0x1F, CHR 0x20,
                           CHR 0x85, CHR 0xA0])"

text \<open>\<^verbatim>\<open>s.strip()\<close>: whitespace removed at both ends.\<close>

definition strip :: "string \<Rightarrow> string" where
  "strip s = rev (dropWhile isspace (rev (dropWhile isspace s)))"

text \<open>\<^verbatim>\<open>s.split(sep)\<close> with a one-character separator: never the empty list.\<close>

fun str_split :: "string \<Rightarrow> char \<Rightarrow> string list" where
  "str_split [] sep = [[]]"
| "str_split (c # cs) sep =
     (if c = sep then [] # str_split cs sep
      else (case str_split cs sep of
              [] \<Rightarrow> [[c]]
            | w # ws \<Rightarrow> (c # w) # ws))"

text \<open>
  The first \<^verbatim>\<open>readline()\<close> of a file opened in text mode with the default
  \<^verbatim>\<open>newline=None\<close>: the line ends at the first \<open>\n\<close>, \<open>\r\<close> or \<open>\r\n\<close>, which is handed
  over as \<open>\n\<close>; at the end of the file the rest is returned as it is.
\<close>

fun readline :: "string \<Rightarrow> string" where
  "readline [] = []"
| "readline (c # cs) = (if c = LF \<or> c = CR then [LF] else c # readline cs)"

subsection \<open>The outside world\<close>

record env =
  status :: "string \<Rightarrow> int"
  bcftools_view :: "string \<Rightarrow> string"

text \<open>
  \<^verbatim>\<open>subprocess.run(command, shell=True, check=...)\<close>: with \<^verbatim>\<open>check=True\<close> a non-zero exit
  status raises, with \<^verbatim>\<open>check=False\<close> the status is ignored.
\<close>

definition subprocess_run :: "env \<Rightarrow> string \<Rightarrow> bool \<Rightarrow> error + unit" where
  "subprocess_run env command check =
     (if check \<and> status env command \<noteq> 0
      then Inl (CalledProcessError (status env command) command)
      else Inr ())"

text \<open>
  Modelled from the spec: the external filter \<^verbatim>\<open>grep -v '^#'\<close>, which the script calls
  on the query's output and which "strips header/comment lines": the input is cut into
  lines at \<open>\n\<close>, the lines that begin with \<open>#\<close> are dropped, and every remaining line
  is printed with a final \<open>\n\<close>.
\<close>

definition text_lines :: "string \<Rightarrow> string list" where
  "text_lines s = (let ls = str_split s LF in if last ls = [] then butlast ls else ls)"

definition is_comment :: "string \<Rightarrow> bool" where
  "is_comment l = (case l of [] \<Rightarrow> False | c # _ \<Rightarrow> c = CHR ''#'')"

definition data_lines :: "string \<Rightarrow> string list" where
  "data_lines s = filter (\<lambda>l. \<not> is_comment l) (text_lines s)"

definition grep_v :: "string \<Rightarrow> string" where
  "grep_v s = concat (map (\<lambda>l. l @ [LF]) (data_lines s))"

subsection \<open>The SNPs and the report\<close>

text \<open>
  One entry of the list \<^verbatim>\<open>snps\<close>, a dictionary with the keys \<^verbatim>\<open>id\<close>, \<^verbatim>\<open>name\<close> and
  \<^verbatim>\<open>position\<close>; the fields carry a prime, \<open>id\<close> being the identity function of HOL.
\<close>

record snp =
  id' :: string
  name' :: string
  position' :: string

type_synonym row = "string list"
type_synonym report = "row list"

definition snps :: "snp list" where
  "snps =
    [\<lparr>id' = ''rs762551'', name' = ''CYP1A2*1F'', position' = ''chr15:74749576''\<rparr>,
     \<lparr>id' = ''rs2069514'', name' = ''CYP1A2*1C'', position' = ''chr15:74754823''\<rparr>,
     \<lparr>id' = ''rs2472300'', name' = '''', position' = ''chr15:74749234''\<rparr>,
     \<lparr>id' = ''rs2472304'', name' = '''', position' = ''chr15:74751897''\<rparr>,
     \<lparr>id' = ''rs2470893'', name' = '''', position' = ''chr15:74745879''\<rparr>]"

definition header_row :: row where
  "header_row = [''SNP'', ''Position'', ''Reference'', ''Alternative'', ''Genotype'', ''Annotation'']"

subsection \<open>Step 7: one row per SNP\<close>

text \<open>
  Lines 101 to 122, given the content of the temporary file: the size test, the first
  line stripped, the tab split, the test for ten columns and the row that is written.
\<close>

definition extract_row :: "string \<Rightarrow> string \<Rightarrow> string \<Rightarrow> error + row" where
  "extract_row snp_id position temp =
     (if 0 < length temp then
        (let line = strip (readline temp) in
         if line \<noteq> [] then
           (let parts = str_split line TAB in
            if 10 \<le> length parts then
              and_then (py_get parts 9) (\<lambda>sample.
              and_then (py_get (str_split sample (CHR '':'')) 0) (\<lambda>genotype.
              and_then (py_get parts 3) (\<lambda>ref.
              and_then (py_get parts 4) (\<lambda>alt.
              and_then (py_get parts 7) (\<lambda>info.
              Inr [snp_id, position, ref, alt, genotype, info])))))
            else Inr [snp_id, position, ''not found'', ''not found'', ''not found'', ''not found''])
         else Inr [snp_id, position, ''not found'', ''not found'', ''not found'', ''not found''])
      else Inr [snp_id, position, ''not found'', ''not found'', ''not found'', ''not found''])"

text \<open>
  Lines 76 to 122 for one SNP: the query and the filter run with \<^verbatim>\<open>check=False\<close>, the
  temporary file holds the filter's output. The file exists whatever the exit statuses
  are, since the shell creates the target of a redirection before it starts the command.
\<close>

definition bcftools_cmd :: "string \<Rightarrow> string" where
  "bcftools_cmd position =
     ''bcftools view CYP1A2_annotated.vcf.gz '' @ position @ '' > temp_bcftools_output.txt''"

definition temp_file :: "string \<Rightarrow> string" where
  "temp_file snp_id = ''temp_'' @ snp_id @ ''.txt''"

definition grep_cmd :: "string \<Rightarrow> string" where
  "grep_cmd snp_id =
     ''grep -v '' @ [CHR 0x27] @ ''^#'' @ [CHR 0x27] @ '' temp_bcftools_output.txt > ''
       @ temp_file snp_id"

definition extract_snp :: "env \<Rightarrow> snp \<Rightarrow> error + row" where
  "extract_snp env snp =
     and_then (subprocess_run env (bcftools_cmd (position' snp)) False) (\<lambda>_.
     and_then (subprocess_run env (grep_cmd (id' snp)) False) (\<lambda>_.
     extract_row (id' snp) (position' snp) (grep_v (bcftools_view env (position' snp)))))"

text \<open>The loop over the SNPs, each row appended to the rows written so far.\<close>

fun extract_loop :: "env \<Rightarrow> snp list \<Rightarrow> report \<Rightarrow> error + report" where
  "extract_loop env [] csv = Inr csv"
| "extract_loop env (snp # rest) csv =
     and_then (extract_snp env snp) (\<lambda>r. extract_loop env rest (csv @ [r]))"

definition extract_pass :: "env \<Rightarrow> error + report" where
  "extract_pass env = extract_loop env snps [header_row]"

subsection \<open>Step 8: the genotype labels\<close>

text \<open>The body of the loop at lines 143 to 149, on one row.\<close>

definition map_row :: "row \<Rightarrow> error + row" where
  "map_row r =
     (if 5 \<le> length r then
        and_then (py_get r 4) (\<lambda>g0.
        if g0 = ''0/0'' then py_set r 4 ''Homozygous Reference''
        else and_then (py_get r 4) (\<lambda>g1.
        if g1 = ''0/1'' then py_set r 4 ''Heterozygous''
        else and_then (py_get r 4) (\<lambda>g2.
        if g2 = ''1/1'' then py_set r 4 ''Homozygous Alternate''
        else Inr r)))
      else Inr r)"

fun mapping_loop :: "report \<Rightarrow> report \<Rightarrow> error + report" where
  "mapping_loop [] rows = Inr rows"
| "mapping_loop (r # reader) rows =
     and_then (map_row r) (\<lambda>r'. mapping_loop reader (rows @ [r']))"

text \<open>
  Lines 138 to 156: \<^verbatim>\<open>next(reader)\<close> takes the header and raises on a file without a
  row; the header and the rows are written back.
\<close>

definition mapping_pass :: "report \<Rightarrow> error + report" where
  "mapping_pass csv =
     (case csv of
        [] \<Rightarrow> Inl StopIteration
      | header # reader \<Rightarrow>
          and_then (mapping_loop reader []) (\<lambda>rows. Inr (header # rows)))"

subsection \<open>The whole run\<close>

definition setup_commands :: "string list" where
  "setup_commands =
    [''samtools index seq.cram'',
     ''samtools view seq.cram chr15:74745879-74756607 -b > CYP1A2.bam'',
     ''samtools index CYP1A2.bam'',
     ''bcftools mpileup -f ../../../GRCh38.d1.vd1.fa CYP1A2.bam | ''
       @ ''bcftools call -mv -Ov -o CYP1A2_variants.vcf.gz'',
     ''java -jar /Users/matthewkinder/snpEff/snpEff.jar -v GRCh38.99 ''
       @ ''CYP1A2_variants.vcf.gz > CYP1A2_annotated.vcf'',
     ''bgzip -c CYP1A2_annotated.vcf > CYP1A2_annotated.vcf.gz'',
     ''tabix -p vcf CYP1A2_annotated.vcf.gz'']"

text \<open>Steps 1 to 6: each command with \<^verbatim>\<open>check=True\<close>, in order.\<close>

fun run_checked :: "env \<Rightarrow> string list \<Rightarrow> error + unit" where
  "run_checked env [] = Inr ()"
| "run_checked env (command # rest) =
     and_then (subprocess_run env command True) (\<lambda>_. run_checked env rest)"

definition main :: "env \<Rightarrow> error + report" where
  "main env =
     and_then (run_checked env setup_commands) (\<lambda>_.
     and_then (extract_pass env) (\<lambda>csv.
     mapping_pass csv))"

subsection \<open>The genotype mapping of the specification\<close>

text \<open>
  The specification gives the mapping as a function on one field value; this definition
  follows its words and is compared with \<open>map_row\<close> below.
\<close>

definition genotype_label :: "string \<Rightarrow> string" where
  "genotype_label g =
     (if g = ''0/0'' then ''Homozygous Reference''
      else if g = ''0/1'' then ''Heterozygous''
      else if g = ''1/1'' then ''Homozygous Alternate''
      else g)"

section \<open>Auxiliary facts\<close>

subsection \<open>Sequencing, indexing and strings\<close>

lemma and_then_Inr [simp]: "and_then (Inr v) f = f v"
  by (simp add: and_then_def)

lemma and_then_Inl [simp]: "and_then (Inl e) f = Inl e"
  by (simp add: and_then_def)

lemma py_get_in_range [simp]: "i < length xs \<Longrightarrow> py_get xs i = Inr (xs ! i)"
  by (simp add: py_get_def)

lemma py_set_in_range [simp]: "i < length xs \<Longrightarrow> py_set xs i v = Inr (xs[i := v])"
  by (simp add: py_set_def)

lemma str_split_not_Nil [simp]: "str_split s sep \<noteq> []"
  by (induction s) (auto split: list.splits)

lemma length_str_split: "length (str_split s sep) = Suc (length (filter (\<lambda>c. c = sep) s))"
  by (induction s) (auto split: list.splits)

lemma str_split_first: "str_split s sep ! 0 = takeWhile (\<lambda>c. c \<noteq> sep) s"
  by (induction s) (auto split: list.splits)

lemma readline_append_LF:
  "readline (l @ LF # rest) = takeWhile (\<lambda>c. c \<noteq> LF \<and> c \<noteq> CR) l @ [LF]"
  by (induction l) auto

lemma count_readline: "P LF = False \<Longrightarrow> length (filter P (readline s)) \<le> length (filter P s)"
  by (induction s) auto

lemma count_dropWhile: "length (filter P (dropWhile Q xs)) \<le> length (filter P xs)"
  by (induction xs) auto

lemma count_rev: "length (filter P (rev xs)) = length (filter P xs)"
  by (simp flip: rev_filter)

lemma count_strip: "length (filter P (strip s)) \<le> length (filter P s)"
proof -
  have "length (filter P (strip s)) = length (filter P (dropWhile isspace (rev (dropWhile isspace s))))"
    by (simp add: strip_def count_rev)
  also have "\<dots> \<le> length (filter P (rev (dropWhile isspace s)))"
    by (rule count_dropWhile)
  also have "\<dots> = length (filter P (dropWhile isspace s))"
    by (rule count_rev)
  also have "\<dots> \<le> length (filter P s)"
    by (rule count_dropWhile)
  finally show ?thesis .
qed

lemma map_row_eq:
  "map_row r = Inr (if 5 \<le> length r then r[4 := genotype_label (r ! 4)] else r)"
  by (simp add: map_row_def genotype_label_def)

lemma extract_snp_eq:
  "extract_snp env s = extract_row (id' s) (position' s) (grep_v (bcftools_view env (position' s)))"
  by (simp add: extract_snp_def subprocess_run_def)

lemma extract_row_found:
  assumes "parts = str_split (strip (readline temp)) TAB" and "10 \<le> length parts"
  shows "extract_row i p temp =
           Inr [i, p, parts ! 3, parts ! 4, takeWhile (\<lambda>c. c \<noteq> CHR '':'') (parts ! 9), parts ! 7]"
proof -
  have "strip (readline temp) \<noteq> []"
    using assms by auto
  moreover from this have "temp \<noteq> []"
    by (auto simp: strip_def)
  moreover have "0 < length (str_split (parts ! 9) (CHR '':''))"
    by simp
  ultimately show ?thesis
    using assms by (simp add: extract_row_def Let_def str_split_first)
qed

lemma extract_row_not_found:
  assumes "length (str_split (strip (readline temp)) TAB) < 10"
  shows "extract_row i p temp = Inr [i, p, ''not found'', ''not found'', ''not found'', ''not found'']"
  using assms by (simp add: extract_row_def Let_def)

subsection \<open>The filter, the two passes and the whole run\<close>

lemma str_split_no_sep: "w \<in> set (str_split s sep) \<Longrightarrow> sep \<notin> set w"
  by (induction s arbitrary: w) (auto split: list.splits if_splits)

lemma text_lines_no_LF:
  assumes "l \<in> set (text_lines s)"
  shows "LF \<notin> set l"
proof -
  from assms have "l \<in> set (str_split s LF)"
    by (auto simp: text_lines_def Let_def dest: in_set_butlastD split: if_splits)
  then show ?thesis
    by (rule str_split_no_sep)
qed

lemma data_lines_no_LF: "l \<in> set (data_lines s) \<Longrightarrow> LF \<notin> set l"
  by (auto simp: data_lines_def dest: text_lines_no_LF)


lemma readline_grep_v:
  "data_lines q = l # rest \<Longrightarrow>
   readline (grep_v q) = takeWhile (\<lambda>c. c \<noteq> LF \<and> c \<noteq> CR) l @ [LF]"
  by (simp add: grep_v_def readline_append_LF)

lemma extract_row_cong:
  assumes "temp \<noteq> []" and "temp' \<noteq> []" and "readline temp = readline temp'"
  shows "extract_row i p temp = extract_row i p temp'"
  using assms by (simp add: extract_row_def)

lemma readline_no_newline: "LF \<notin> set l \<Longrightarrow> CR \<notin> set l \<Longrightarrow> readline (l @ [LF]) = l @ [LF]"
  by (induction l) auto

lemma isspace_LF [simp]: "isspace LF"
  by (simp add: isspace_def LF_def)

lemma strip_clean:
  assumes "l \<noteq> []" and "\<not> isspace (hd l)" and "\<not> isspace (last l)"
  shows "strip (l @ [LF]) = l"
proof -
  from assms obtain c cs where l: "l = c # cs" by (cases l) auto
  from assms obtain bs b where r: "l = bs @ [b]" by (cases l rule: rev_cases) auto
  have "dropWhile isspace (l @ [LF]) = l @ [LF]"
    using assms(2) l by simp
  moreover have "dropWhile isspace (rev (l @ [LF])) = rev l"
    using assms(3) r by simp
  ultimately show ?thesis
    by (simp add: strip_def)
qed


lemma extract_snp_row:
  "\<exists>r. extract_snp env s = Inr r \<and> length r = 6 \<and> r ! 0 = id' s \<and> r ! 1 = position' s"
proof (cases "10 \<le> length (str_split (strip (readline (grep_v (bcftools_view env (position' s))))) TAB)")
  case True
  then show ?thesis
    by (simp add: extract_snp_eq extract_row_found [OF refl])
next
  case False
  then show ?thesis
    by (simp add: extract_snp_eq extract_row_not_found)
qed

lemma extract_loop_rows:
  "\<exists>rows. extract_loop env ss csv = Inr (csv @ rows) \<and>
          list_all2 (\<lambda>s r. extract_snp env s = Inr r) ss rows"
proof (induction ss arbitrary: csv)
  case Nil
  show ?case by simp
next
  case (Cons s ss)
  obtain r where r: "extract_snp env s = Inr r"
    using extract_snp_row by blast
  from Cons.IH [of "csv @ [r]"] obtain rows where
    "extract_loop env ss (csv @ [r]) = Inr ((csv @ [r]) @ rows)"
    "list_all2 (\<lambda>s r. extract_snp env s = Inr r) ss rows"
    by blast
  with r have "extract_loop env (s # ss) csv = Inr (csv @ r # rows) \<and>
          list_all2 (\<lambda>s r. extract_snp env s = Inr r) (s # ss) (r # rows)"
    by simp
  then show ?case by blast
qed

lemma mapping_loop_eq:
  "mapping_loop reader rows =
     Inr (rows @ map (\<lambda>r. if 5 \<le> length r then r[4 := genotype_label (r ! 4)] else r) reader)"
  by (induction reader arbitrary: rows) (simp_all add: map_row_eq)

lemma mapping_pass_Cons:
  "mapping_pass (header # reader) =
     Inr (header # map (\<lambda>r. if 5 \<le> length r then r[4 := genotype_label (r ! 4)] else r) reader)"
  by (simp add: mapping_pass_def mapping_loop_eq)

lemma run_checked_ok:
  "(\<forall>c\<in>set cs. status env c = 0) \<Longrightarrow> run_checked env cs = Inr ()"
  by (induction cs) (simp_all add: subprocess_run_def)

lemma run_checked_fails:
  "\<exists>c\<in>set cs. status env c \<noteq> 0 \<Longrightarrow>
   \<exists>c\<in>set cs. status env c \<noteq> 0 \<and> run_checked env cs = Inl (CalledProcessError (status env c) c)"
  by (induction cs) (auto simp: subprocess_run_def)

lemma main_after_setup:
  assumes "run_checked env setup_commands = Inr ()"
  shows "\<exists>rows. list_all2 (\<lambda>s r. extract_snp env s = Inr r) snps rows \<and>
           main env = Inr (header_row #
             map (\<lambda>r. if 5 \<le> length r then r[4 := genotype_label (r ! 4)] else r) rows)"
proof -
  obtain rows where
    "extract_loop env snps [header_row] = Inr ([header_row] @ rows)"
    "list_all2 (\<lambda>s r. extract_snp env s = Inr r) snps rows"
    using extract_loop_rows by blast
  with assms show ?thesis
    by (auto simp: main_def extract_pass_def mapping_pass_Cons)
qed

lemma main_Inr_setup:
  assumes "main env = Inr rep"
  shows "run_checked env setup_commands = Inr ()"
proof (rule ccontr)
  assume "run_checked env setup_commands \<noteq> Inr ()"
  then obtain e where "run_checked env setup_commands = Inl e"
    by (cases "run_checked env setup_commands") auto
  then have "main env = Inl e"
    by (simp add: main_def)
  with assms show False by simp
qed

lemma main_row:
  assumes "main env = Inr rep" and "i < length snps"
  shows "length rep = Suc (length snps) \<and> rep ! 0 = header_row \<and>
         (\<exists>r. extract_snp env (snps ! i) = Inr r \<and> map_row r = Inr (rep ! Suc i))"
proof -
  from assms(1) have "run_checked env setup_commands = Inr ()"
    by (rule main_Inr_setup)
  then obtain rows where rows: "list_all2 (\<lambda>s r. extract_snp env s = Inr r) snps rows"
    and m: "main env = Inr (header_row #
             map (\<lambda>r. if 5 \<le> length r then r[4 := genotype_label (r ! 4)] else r) rows)"
    using main_after_setup by blast
  from rows have len: "length rows = length snps"
    by (simp add: list_all2_lengthD)
  from rows assms(2) have ex: "extract_snp env (snps ! i) = Inr (rows ! i)"
    by (rule list_all2_nthD)
  from m assms(1) have rep: "rep = header_row #
             map (\<lambda>r. if 5 \<le> length r then r[4 := genotype_label (r ! 4)] else r) rows"
    by simp
  have l: "length rep = Suc (length snps)"
    by (simp add: rep len)
  have h: "rep ! 0 = header_row"
    by (simp add: rep)
  have "rep ! Suc i = (if 5 \<le> length (rows ! i)
                        then (rows ! i)[4 := genotype_label (rows ! i ! 4)] else rows ! i)"
    using assms(2) len by (simp add: rep)
  then have "map_row (rows ! i) = Inr (rep ! Suc i)"
    by (simp only: map_row_eq)
  with ex l h show ?thesis
    by blast
qed

lemma genotype_label_idem: "genotype_label (genotype_label g) = genotype_label g"
  by (simp add: genotype_label_def)

lemma readline_first_data_line:
  "data_lines q = l # rest \<Longrightarrow> readline (grep_v q) = readline (l @ [LF])"
  by (simp add: readline_grep_v readline_append_LF [of l "[]"])

lemma extract_snp_first_line:
  assumes "data_lines (bcftools_view env (position' s)) = l # rest"
  shows "extract_snp env s = extract_row (id' s) (position' s) (l @ [LF])"
proof -
  have "grep_v (bcftools_view env (position' s)) \<noteq> []"
    using assms by (simp add: grep_v_def)
  moreover have "l @ [LF] \<noteq> []"
    by simp
  moreover have "readline (grep_v (bcftools_view env (position' s))) = readline (l @ [LF])"
    using assms by (rule readline_first_data_line)
  ultimately have "extract_row (id' s) (position' s) (grep_v (bcftools_view env (position' s))) =
      extract_row (id' s) (position' s) (l @ [LF])"
    by (rule extract_row_cong)
  then show ?thesis
    by (simp add: extract_snp_eq)
qed

lemma clean_line_as_read:
  assumes "l \<in> set (data_lines q)" and "CR \<notin> set l" and "l \<noteq> []"
    and "\<not> isspace (hd l)" and "\<not> isspace (last l)"
  shows "strip (readline (l @ [LF])) = l"
proof -
  from assms(1) have "LF \<notin> set l"
    by (rule data_lines_no_LF)
  with assms(2) have "readline (l @ [LF]) = l @ [LF]"
    by (simp add: readline_no_newline)
  with assms(3-5) show ?thesis
    by (simp add: strip_clean)
qed

lemma main_row_eq:
  assumes "main env = Inr rep" and "i < length snps" and "extract_snp env (snps ! i) = Inr r"
  shows "map_row r = Inr (rep ! Suc i)"
  using main_row [OF assms(1,2)] assms(3) by auto

lemma not_found_condition:
  assumes "case data_lines q of [] \<Rightarrow> True
           | l # _ \<Rightarrow> l = [] \<or> length (str_split l TAB) < 10 \<or>
                      length (str_split (strip (readline (l @ [LF]))) TAB) < 10"
  shows "length (str_split (strip (readline (grep_v q))) TAB) < 10"
proof (cases "data_lines q")
  case Nil
  then show ?thesis
    by (simp add: grep_v_def strip_def)
next
  case (Cons l rest)
  then have rd: "readline (grep_v q) = readline (l @ [LF])"
    by (rule readline_first_data_line)
  have "length (str_split (strip (readline (l @ [LF]))) TAB) \<le> length (str_split l TAB)"
  proof -
    have "length (filter (\<lambda>c. c = TAB) (strip (readline (l @ [LF]))))
            \<le> length (filter (\<lambda>c. c = TAB) (readline (l @ [LF])))"
      by (rule count_strip)
    also have "\<dots> \<le> length (filter (\<lambda>c. c = TAB) (l @ [LF]))"
      by (rule count_readline) (simp add: TAB_def LF_def)
    also have "\<dots> = length (filter (\<lambda>c. c = TAB) l)"
      by (simp add: TAB_def LF_def)
    finally show ?thesis
      by (simp add: length_str_split)
  qed
  moreover have "length (str_split [] TAB) < 10"
    by simp
  ultimately show ?thesis
    using assms Cons rd by auto
qed

lemma length_snps: "length snps = 5"
  by (simp add: snps_def)

lemma final_row_key:
  assumes "main env = Inr rep" and "i < length snps"
  shows "length (rep ! Suc i) = 6 \<and> rep ! Suc i ! 0 = id' (snps ! i) \<and>
         rep ! Suc i ! 1 = position' (snps ! i)"
proof -
  obtain r where r: "extract_snp env (snps ! i) = Inr r" "length r = 6"
      "r ! 0 = id' (snps ! i)" "r ! 1 = position' (snps ! i)"
    using extract_snp_row by blast
  from assms r(1) have "map_row r = Inr (rep ! Suc i)"
    by (rule main_row_eq)
  then have "rep ! Suc i = r[4 := genotype_label (r ! 4)]"
    using r(2) by (simp add: map_row_eq)
  with r show ?thesis by simp
qed

lemma main_completes:
  assumes "\<forall>c\<in>set setup_commands. status env c = 0"
  shows "\<exists>rep. main env = Inr rep"
  using main_after_setup [OF run_checked_ok [OF assms]] by blast

lemma main_aborts:
  assumes "\<exists>c\<in>set setup_commands. status env c \<noteq> 0"
  shows "\<exists>c\<in>set setup_commands. status env c \<noteq> 0 \<and>
           main env = Inl (CalledProcessError (status env c) c)"
proof -
  from run_checked_fails [OF assms] obtain c where
    "c \<in> set setup_commands" "status env c \<noteq> 0"
    "run_checked env setup_commands = Inl (CalledProcessError (status env c) c)"
    by blast
  then show ?thesis
    by (auto simp: main_def)
qed

lemma run_checked_cong:
  "(\<forall>c\<in>set cs. status env' c = status env c) \<Longrightarrow> run_checked env' cs = run_checked env cs"
  by (induction cs) (simp_all add: subprocess_run_def)

lemma extract_loop_status:
  "extract_loop (env\<lparr>status := st\<rparr>) ss csv = extract_loop env ss csv"
  by (induction ss arbitrary: csv) (simp_all add: extract_snp_eq)

lemma main_status:
  assumes "\<forall>c\<in>set setup_commands. st c = status env c"
  shows "main (env\<lparr>status := st\<rparr>) = main env"
proof -
  have "run_checked (env\<lparr>status := st\<rparr>) setup_commands = run_checked env setup_commands"
    using assms by (intro run_checked_cong) simp
  then show ?thesis
    by (simp add: main_def extract_pass_def extract_loop_status)
qed

subsection \<open>A concrete run\<close>

text \<open>
  The definitions that a concrete run unfolds, and the report of one run: all setup
  commands succeed, the query and the filter exit with status 1 for every SNP, and only
  the position of \<open>rs762551\<close> has a record.
\<close>

lemmas eval_defs = main_def setup_commands_def subprocess_run_def extract_pass_def
  snps_def extract_snp_def extract_row_def grep_v_def data_lines_def text_lines_def is_comment_def
  strip_def isspace_def TAB_def LF_def CR_def py_get_def py_set_def map_row_def mapping_pass_def
  bcftools_cmd_def grep_cmd_def temp_file_def Let_def and_then_def header_row_def

lemma main_example:
  "main \<lparr>status = (\<lambda>c. if c \<in> set setup_commands then 0 else 1),
      bcftools_view = (\<lambda>p. if p = ''chr15:74749576''
        then ''##fileformat=VCFv4.2'' @ [LF] @
        ''chr15'' @ TAB # ''74749576'' @ TAB # ''.'' @ TAB # ''A'' @ TAB # ''G'' @ TAB # ''50'' @ TAB #
        ''PASS'' @ TAB # ''ANN=xyz'' @ TAB # ''GT:DP'' @ TAB # ''0/1:30'' @ [LF]
        else [])\<rparr> =
   Inr [header_row,
      [''rs762551'', ''chr15:74749576'', ''A'', ''G'', ''Heterozygous'', ''ANN=xyz''],
      [''rs2069514'', ''chr15:74754823'', ''not found'', ''not found'', ''not found'', ''not found''],
      [''rs2472300'', ''chr15:74749234'', ''not found'', ''not found'', ''not found'', ''not found''],
      [''rs2472304'', ''chr15:74751897'', ''not found'', ''not found'', ''not found'', ''not found''],
      [''rs2470893'', ''chr15:74745879'', ''not found'', ''not found'', ''not found'', ''not found'']]"
  by (simp add: eval_defs)

section \<open>The extraction pass\<close>

text \<open>
  C1, as stated: every data line whose tab split has at least ten fields gives a row with
  fields 4, 5 and 8 and the genotype prefix of field 10. The script splits the line only
  after \<^verbatim>\<open>strip()\<close> (line 104), which also removes tabs at both ends. The record
  \<open>chr15 74749576 . A G 50 PASS ANN=xyz GT\<close> followed by an empty sample column has ten
  tab-separated fields, the fourth being \<open>A\<close>; stripped, it has nine, and the row written
  is the \<open>not found\<close> row:
\<close>

theorem found_row_raw_split_counterexample:
  "data_lines ((''chr15'' @ TAB # ''74749576'' @ TAB # ''.'' @ TAB # ''A'' @ TAB # ''G'' @ TAB # ''50'' @ TAB #
        ''PASS'' @ TAB # ''ANN=xyz'' @ TAB # ''GT'' @ [TAB]) @ [LF]) =
     [''chr15'' @ TAB # ''74749576'' @ TAB # ''.'' @ TAB # ''A'' @ TAB # ''G'' @ TAB # ''50'' @ TAB #
        ''PASS'' @ TAB # ''ANN=xyz'' @ TAB # ''GT'' @ [TAB]] \<and>
   length (str_split (''chr15'' @ TAB # ''74749576'' @ TAB # ''.'' @ TAB # ''A'' @ TAB # ''G'' @ TAB # ''50'' @ TAB #
        ''PASS'' @ TAB # ''ANN=xyz'' @ TAB # ''GT'' @ [TAB]) TAB) = 10 \<and>
   str_split (''chr15'' @ TAB # ''74749576'' @ TAB # ''.'' @ TAB # ''A'' @ TAB # ''G'' @ TAB # ''50'' @ TAB #
        ''PASS'' @ TAB # ''ANN=xyz'' @ TAB # ''GT'' @ [TAB]) TAB ! 3 = ''A'' \<and>
   extract_row ''rs762551'' ''chr15:74749576''
     (grep_v ((''chr15'' @ TAB # ''74749576'' @ TAB # ''.'' @ TAB # ''A'' @ TAB # ''G'' @ TAB # ''50'' @ TAB #
        ''PASS'' @ TAB # ''ANN=xyz'' @ TAB # ''GT'' @ [TAB]) @ [LF])) =
     Inr [''rs762551'', ''chr15:74749576'', ''not found'', ''not found'', ''not found'', ''not found'']"
  by (simp add: eval_defs)

text \<open>
  C1, amended. When the query for a SNP yields a data line and that line, stripped of
  whitespace at both ends as the script holds it (the first line of the filter's output,
  line 104), splits at tabs into at least ten fields, the row written for the SNP is the
  SNP id, the position, field 4 (REF), field 5 (ALT), the part of field 10 before the
  first colon, and field 8 (INFO) of the stripped line; in the final report the genotype
  is replaced by its label and the other fields are the same. For a data line without a
  carriage return that neither begins nor ends with whitespace, these are the fields of
  the data line itself.
\<close>

theorem found_row_fields:
  assumes "data_lines (bcftools_view env (position' s)) = l # rest"
    and "parts = str_split (strip (readline (l @ [LF]))) TAB"
    and "10 \<le> length parts"
  shows "extract_snp env s =
           Inr [id' s, position' s, parts ! 3, parts ! 4,
                takeWhile (\<lambda>c. c \<noteq> CHR '':'') (parts ! 9), parts ! 7] \<and>
         (\<forall>i rep. i < length snps \<and> s = snps ! i \<and> main env = Inr rep \<longrightarrow>
            rep ! Suc i =
              [id' s, position' s, parts ! 3, parts ! 4,
               genotype_label (takeWhile (\<lambda>c. c \<noteq> CHR '':'') (parts ! 9)), parts ! 7]) \<and>
         (CR \<notin> set l \<and> \<not> isspace (hd l) \<and> \<not> isspace (last l) \<longrightarrow>
            parts = str_split l TAB)"
proof -
  have row: "extract_snp env s =
           Inr [id' s, position' s, parts ! 3, parts ! 4,
                takeWhile (\<lambda>c. c \<noteq> CHR '':'') (parts ! 9), parts ! 7]"
    unfolding extract_snp_first_line [OF assms(1)]
    using assms(2,3) by (rule extract_row_found)
  have final: "rep ! Suc i =
              [id' s, position' s, parts ! 3, parts ! 4,
               genotype_label (takeWhile (\<lambda>c. c \<noteq> CHR '':'') (parts ! 9)), parts ! 7]"
    if "i < length snps" and "s = snps ! i" and "main env = Inr rep" for i rep
  proof -
    from that row have "map_row [id' s, position' s, parts ! 3, parts ! 4,
                takeWhile (\<lambda>c. c \<noteq> CHR '':'') (parts ! 9), parts ! 7] = Inr (rep ! Suc i)"
      by (simp add: main_row_eq)
    then show ?thesis
      by (simp add: map_row_eq)
  qed
  have raw: "parts = str_split l TAB"
    if "CR \<notin> set l" and "\<not> isspace (hd l)" and "\<not> isspace (last l)"
  proof -
    have "l \<noteq> []"
    proof
      assume "l = []"
      then have "strip (readline (l @ [LF])) = []"
        by (simp add: strip_def)
      with assms(2,3) show False
        by simp
    qed
    moreover from assms(1) have "l \<in> set (data_lines (bcftools_view env (position' s)))"
      by simp
    ultimately have "strip (readline (l @ [LF])) = l"
      using that by (intro clean_line_as_read)
    with assms(2) show ?thesis
      by simp
  qed
  from row final raw show ?thesis by blast
qed

theorem found_row_fields_witness:
  "data_lines (bcftools_view \<lparr>status = (\<lambda>c. if c \<in> set setup_commands then 0 else 1),
      bcftools_view = (\<lambda>p. if p = ''chr15:74749576''
        then ''##fileformat=VCFv4.2'' @ [LF] @
        ''chr15'' @ TAB # ''74749576'' @ TAB # ''.'' @ TAB # ''A'' @ TAB # ''G'' @ TAB # ''50'' @ TAB #
        ''PASS'' @ TAB # ''ANN=xyz'' @ TAB # ''GT:DP'' @ TAB # ''0/1:30'' @ [LF]
        else [])\<rparr> (position' (snps ! 0))) =
     [''chr15'' @ TAB # ''74749576'' @ TAB # ''.'' @ TAB # ''A'' @ TAB # ''G'' @ TAB # ''50'' @ TAB #
        ''PASS'' @ TAB # ''ANN=xyz'' @ TAB # ''GT:DP'' @ TAB # ''0/1:30''] \<and>
   str_split (strip (readline ((''chr15'' @ TAB # ''74749576'' @ TAB # ''.'' @ TAB # ''A'' @ TAB # ''G'' @ TAB # ''50'' @ TAB #
        ''PASS'' @ TAB # ''ANN=xyz'' @ TAB # ''GT:DP'' @ TAB # ''0/1:30'') @ [LF]))) TAB =
     [''chr15'', ''74749576'', ''.'', ''A'', ''G'', ''50'', ''PASS'', ''ANN=xyz'', ''GT:DP'', ''0/1:30''] \<and>
   extract_snp \<lparr>status = (\<lambda>c. if c \<in> set setup_commands then 0 else 1),
      bcftools_view = (\<lambda>p. if p = ''chr15:74749576''
        then ''##fileformat=VCFv4.2'' @ [LF] @
        ''chr15'' @ TAB # ''74749576'' @ TAB # ''.'' @ TAB # ''A'' @ TAB # ''G'' @ TAB # ''50'' @ TAB #
        ''PASS'' @ TAB # ''ANN=xyz'' @ TAB # ''GT:DP'' @ TAB # ''0/1:30'' @ [LF]
        else [])\<rparr> (snps ! 0) =
     Inr [''rs762551'', ''chr15:74749576'', ''A'', ''G'', ''0/1'', ''ANN=xyz''] \<and>
   main \<lparr>status = (\<lambda>c. if c \<in> set setup_commands then 0 else 1),
      bcftools_view = (\<lambda>p. if p = ''chr15:74749576''
        then ''##fileformat=VCFv4.2'' @ [LF] @
        ''chr15'' @ TAB # ''74749576'' @ TAB # ''.'' @ TAB # ''A'' @ TAB # ''G'' @ TAB # ''50'' @ TAB #
        ''PASS'' @ TAB # ''ANN=xyz'' @ TAB # ''GT:DP'' @ TAB # ''0/1:30'' @ [LF]
        else [])\<rparr> =
     Inr [header_row,
      [''rs762551'', ''chr15:74749576'', ''A'', ''G'', ''Heterozygous'', ''ANN=xyz''],
      [''rs2069514'', ''chr15:74754823'', ''not found'', ''not found'', ''not found'', ''not found''],
      [''rs2472300'', ''chr15:74749234'', ''not found'', ''not found'', ''not found'', ''not found''],
      [''rs2472304'', ''chr15:74751897'', ''not found'', ''not found'', ''not found'', ''not found''],
      [''rs2470893'', ''chr15:74745879'', ''not found'', ''not found'', ''not found'', ''not found'']]"
proof -
  have d: "data_lines (bcftools_view \<lparr>status = (\<lambda>c. if c \<in> set setup_commands then 0 else 1),
      bcftools_view = (\<lambda>p. if p = ''chr15:74749576''
        then ''##fileformat=VCFv4.2'' @ [LF] @
        ''chr15'' @ TAB # ''74749576'' @ TAB # ''.'' @ TAB # ''A'' @ TAB # ''G'' @ TAB # ''50'' @ TAB #
        ''PASS'' @ TAB # ''ANN=xyz'' @ TAB # ''GT:DP'' @ TAB # ''0/1:30'' @ [LF]
        else [])\<rparr> (position' (snps ! 0))) =
     (''chr15'' @ TAB # ''74749576'' @ TAB # ''.'' @ TAB # ''A'' @ TAB # ''G'' @ TAB # ''50'' @ TAB #
        ''PASS'' @ TAB # ''ANN=xyz'' @ TAB # ''GT:DP'' @ TAB # ''0/1:30'') # []"
    by (simp add: eval_defs)
  have p: "[''chr15'', ''74749576'', ''.'', ''A'', ''G'', ''50'', ''PASS'', ''ANN=xyz'', ''GT:DP'', ''0/1:30''] =
     str_split (strip (readline ((''chr15'' @ TAB # ''74749576'' @ TAB # ''.'' @ TAB # ''A'' @ TAB # ''G'' @ TAB # ''50'' @ TAB #
        ''PASS'' @ TAB # ''ANN=xyz'' @ TAB # ''GT:DP'' @ TAB # ''0/1:30'') @ [LF]))) TAB"
    by (simp add: eval_defs)
  have n: "10 \<le> length [''chr15'', ''74749576'', ''.'', ''A'', ''G'', ''50'', ''PASS'', ''ANN=xyz'', ''GT:DP'', ''0/1:30'']"
    by simp
  from found_row_fields [OF d p n] have "extract_snp \<lparr>status = (\<lambda>c. if c \<in> set setup_commands then 0 else 1),
      bcftools_view = (\<lambda>p. if p = ''chr15:74749576''
        then ''##fileformat=VCFv4.2'' @ [LF] @
        ''chr15'' @ TAB # ''74749576'' @ TAB # ''.'' @ TAB # ''A'' @ TAB # ''G'' @ TAB # ''50'' @ TAB #
        ''PASS'' @ TAB # ''ANN=xyz'' @ TAB # ''GT:DP'' @ TAB # ''0/1:30'' @ [LF]
        else [])\<rparr> (snps ! 0) =
     Inr [''rs762551'', ''chr15:74749576'', ''A'', ''G'', ''0/1'', ''ANN=xyz'']"
    by (simp add: snps_def)
  with d p [symmetric] main_example show ?thesis
    by (simp only: simp_thms)
qed

text \<open>
  C3, as stated: the row written for a SNP without a usable line is the 5-tuple of five
  \<open>not found\<close>. The script writes six fields: the SNP id, the position and four times
  \<open>not found\<close>; for \<open>rs762551\<close> and an empty filter output:
\<close>

theorem not_found_five_tuple_counterexample:
  "extract_row ''rs762551'' ''chr15:74749576'' [] =
     Inr [''rs762551'', ''chr15:74749576'', ''not found'', ''not found'', ''not found'', ''not found''] \<and>
   extract_row ''rs762551'' ''chr15:74749576'' [] \<noteq>
     Inr [''not found'', ''not found'', ''not found'', ''not found'', ''not found'']"
  by (simp add: extract_row_def)

text \<open>
  C3, amended. When the query yields no data line, or its first data line is empty, or
  that line has fewer than ten tab-separated fields (as it stands, or stripped as the
  script holds it), the row written for the SNP is the SNP id, the position and
  \<open>not found\<close> in each of the four columns Reference, Alternative, Genotype and Annotation;
  the final report has the same row.
\<close>

theorem not_found_row:
  assumes "case data_lines (bcftools_view env (position' s)) of [] \<Rightarrow> True
           | l # _ \<Rightarrow> l = [] \<or> length (str_split l TAB) < 10 \<or>
                      length (str_split (strip (readline (l @ [LF]))) TAB) < 10"
  shows "extract_snp env s =
           Inr [id' s, position' s, ''not found'', ''not found'', ''not found'', ''not found''] \<and>
         (\<forall>i rep. i < length snps \<and> s = snps ! i \<and> main env = Inr rep \<longrightarrow>
            rep ! Suc i =
              [id' s, position' s, ''not found'', ''not found'', ''not found'', ''not found''])"
proof -
  have row: "extract_snp env s =
           Inr [id' s, position' s, ''not found'', ''not found'', ''not found'', ''not found'']"
    unfolding extract_snp_eq
    using assms by (intro extract_row_not_found not_found_condition)
  have "rep ! Suc i =
              [id' s, position' s, ''not found'', ''not found'', ''not found'', ''not found'']"
    if "i < length snps" and "s = snps ! i" and "main env = Inr rep" for i rep
  proof -
    from that row have "map_row [id' s, position' s, ''not found'', ''not found'',
        ''not found'', ''not found''] = Inr (rep ! Suc i)"
      by (simp add: main_row_eq)
    then show ?thesis
      by (simp add: map_row_eq genotype_label_def)
  qed
  with row show ?thesis by blast
qed

theorem not_found_row_witness:
  "data_lines (bcftools_view \<lparr>status = (\<lambda>c. if c \<in> set setup_commands then 0 else 1),
      bcftools_view = (\<lambda>p. if p = ''chr15:74749576''
        then ''##fileformat=VCFv4.2'' @ [LF] @
        ''chr15'' @ TAB # ''74749576'' @ TAB # ''.'' @ TAB # ''A'' @ TAB # ''G'' @ TAB # ''50'' @ TAB #
        ''PASS'' @ TAB # ''ANN=xyz'' @ TAB # ''GT:DP'' @ TAB # ''0/1:30'' @ [LF]
        else [])\<rparr> (position' (snps ! 1))) = [] \<and>
   extract_snp \<lparr>status = (\<lambda>c. if c \<in> set setup_commands then 0 else 1),
      bcftools_view = (\<lambda>p. if p = ''chr15:74749576''
        then ''##fileformat=VCFv4.2'' @ [LF] @
        ''chr15'' @ TAB # ''74749576'' @ TAB # ''.'' @ TAB # ''A'' @ TAB # ''G'' @ TAB # ''50'' @ TAB #
        ''PASS'' @ TAB # ''ANN=xyz'' @ TAB # ''GT:DP'' @ TAB # ''0/1:30'' @ [LF]
        else [])\<rparr> (snps ! 1) =
     Inr [''rs2069514'', ''chr15:74754823'', ''not found'', ''not found'', ''not found'', ''not found''] \<and>
   length (str_split (''chr15'' @ TAB # ''74754823'' @ TAB # ''.'' @ TAB # ''A'') TAB) = 4 \<and>
   extract_snp \<lparr>status = (\<lambda>c. 0),
      bcftools_view = (\<lambda>p. ''chr15'' @ TAB # ''74754823'' @ TAB # ''.'' @ TAB # ''A'' @ [LF])\<rparr> (snps ! 1) =
     Inr [''rs2069514'', ''chr15:74754823'', ''not found'', ''not found'', ''not found'', ''not found'']"
proof -
  have d: "data_lines (bcftools_view \<lparr>status = (\<lambda>c. if c \<in> set setup_commands then 0 else 1),
      bcftools_view = (\<lambda>p. if p = ''chr15:74749576''
        then ''##fileformat=VCFv4.2'' @ [LF] @
        ''chr15'' @ TAB # ''74749576'' @ TAB # ''.'' @ TAB # ''A'' @ TAB # ''G'' @ TAB # ''50'' @ TAB #
        ''PASS'' @ TAB # ''ANN=xyz'' @ TAB # ''GT:DP'' @ TAB # ''0/1:30'' @ [LF]
        else [])\<rparr> (position' (snps ! 1))) = []"
    by (simp add: eval_defs)
  have e: "data_lines (bcftools_view \<lparr>status = (\<lambda>c. 0),
      bcftools_view = (\<lambda>p. ''chr15'' @ TAB # ''74754823'' @ TAB # ''.'' @ TAB # ''A'' @ [LF])\<rparr> (position' (snps ! 1))) =
      [''chr15'' @ TAB # ''74754823'' @ TAB # ''.'' @ TAB # ''A'']"
    by (simp add: eval_defs)
  have l: "length (str_split (''chr15'' @ TAB # ''74754823'' @ TAB # ''.'' @ TAB # ''A'') TAB) = 4"
    by (simp add: TAB_def)
  have "extract_snp \<lparr>status = (\<lambda>c. if c \<in> set setup_commands then 0 else 1),
      bcftools_view = (\<lambda>p. if p = ''chr15:74749576''
        then ''##fileformat=VCFv4.2'' @ [LF] @
        ''chr15'' @ TAB # ''74749576'' @ TAB # ''.'' @ TAB # ''A'' @ TAB # ''G'' @ TAB # ''50'' @ TAB #
        ''PASS'' @ TAB # ''ANN=xyz'' @ TAB # ''GT:DP'' @ TAB # ''0/1:30'' @ [LF]
        else [])\<rparr> (snps ! 1) =
     Inr [''rs2069514'', ''chr15:74754823'', ''not found'', ''not found'', ''not found'', ''not found'']"
    using not_found_row [of "\<lparr>status = (\<lambda>c. if c \<in> set setup_commands then 0 else 1),
      bcftools_view = (\<lambda>p. if p = ''chr15:74749576''
        then ''##fileformat=VCFv4.2'' @ [LF] @
        ''chr15'' @ TAB # ''74749576'' @ TAB # ''.'' @ TAB # ''A'' @ TAB # ''G'' @ TAB # ''50'' @ TAB #
        ''PASS'' @ TAB # ''ANN=xyz'' @ TAB # ''GT:DP'' @ TAB # ''0/1:30'' @ [LF]
        else [])\<rparr>" "snps ! 1"] d
    by (simp add: snps_def)
  moreover have "extract_snp \<lparr>status = (\<lambda>c. 0),
      bcftools_view = (\<lambda>p. ''chr15'' @ TAB # ''74754823'' @ TAB # ''.'' @ TAB # ''A'' @ [LF])\<rparr> (snps ! 1) =
     Inr [''rs2069514'', ''chr15:74754823'', ''not found'', ''not found'', ''not found'', ''not found'']"
    using not_found_row [of "\<lparr>status = (\<lambda>c. 0),
      bcftools_view = (\<lambda>p. ''chr15'' @ TAB # ''74754823'' @ TAB # ''.'' @ TAB # ''A'' @ [LF])\<rparr>" "snps ! 1"] e l
    by (simp add: snps_def)
  ultimately show ?thesis
    using d l by (simp only: simp_thms)
qed

text \<open>
  C8. When the query's output has data lines (lines that do not begin with \<open>#\<close>), the row
  of the SNP is the one computed from the first of them alone: the lines after it, the rest
  of the world and the exit statuses do not occur in it.
\<close>

theorem first_line_only:
  assumes "data_lines (bcftools_view env (position' s)) = l # rest"
  shows "extract_snp env s = extract_row (id' s) (position' s) (l @ [LF]) \<and>
         (\<forall>i rep. i < length snps \<and> s = snps ! i \<and> main env = Inr rep \<longrightarrow>
            Inr (rep ! Suc i) = and_then (extract_row (id' s) (position' s) (l @ [LF])) map_row)"
proof -
  have row: "extract_snp env s = extract_row (id' s) (position' s) (l @ [LF])"
    using assms by (rule extract_snp_first_line)
  have "Inr (rep ! Suc i) = and_then (extract_row (id' s) (position' s) (l @ [LF])) map_row"
    if "i < length snps" and "s = snps ! i" and "main env = Inr rep" for i rep
  proof -
    from main_row [OF that(3,1)] obtain r where
      "extract_snp env (snps ! i) = Inr r" "map_row r = Inr (rep ! Suc i)"
      by blast
    with that(2) row have "extract_row (id' s) (position' s) (l @ [LF]) = Inr r"
      by simp
    with \<open>map_row r = Inr (rep ! Suc i)\<close> show ?thesis
      by simp
  qed
  with row show ?thesis by blast
qed

theorem first_line_only_witness:
  "data_lines (bcftools_view \<lparr>status = (\<lambda>c. 0),
      bcftools_view = (\<lambda>p. ''#CHROM'' @ [LF] @
        ''chr15'' @ TAB # ''74749576'' @ TAB # ''.'' @ TAB # ''A'' @ TAB # ''G'' @ TAB # ''50'' @ TAB #
        ''PASS'' @ TAB # ''ANN=xyz'' @ TAB # ''GT:DP'' @ TAB # ''0/1:30'' @ [LF] @
        ''chr15'' @ TAB # ''74749576'' @ TAB # ''.'' @ TAB # ''C'' @ TAB # ''T'' @ TAB # ''9'' @ TAB #
        ''PASS'' @ TAB # ''ANN=abc'' @ TAB # ''GT:DP'' @ TAB # ''1/1:12'' @ [LF])\<rparr> (position' (snps ! 0))) =
     [''chr15'' @ TAB # ''74749576'' @ TAB # ''.'' @ TAB # ''A'' @ TAB # ''G'' @ TAB # ''50'' @ TAB #
        ''PASS'' @ TAB # ''ANN=xyz'' @ TAB # ''GT:DP'' @ TAB # ''0/1:30'',
      ''chr15'' @ TAB # ''74749576'' @ TAB # ''.'' @ TAB # ''C'' @ TAB # ''T'' @ TAB # ''9'' @ TAB #
        ''PASS'' @ TAB # ''ANN=abc'' @ TAB # ''GT:DP'' @ TAB # ''1/1:12''] \<and>
   extract_snp \<lparr>status = (\<lambda>c. 0),
      bcftools_view = (\<lambda>p. ''#CHROM'' @ [LF] @
        ''chr15'' @ TAB # ''74749576'' @ TAB # ''.'' @ TAB # ''A'' @ TAB # ''G'' @ TAB # ''50'' @ TAB #
        ''PASS'' @ TAB # ''ANN=xyz'' @ TAB # ''GT:DP'' @ TAB # ''0/1:30'' @ [LF] @
        ''chr15'' @ TAB # ''74749576'' @ TAB # ''.'' @ TAB # ''C'' @ TAB # ''T'' @ TAB # ''9'' @ TAB #
        ''PASS'' @ TAB # ''ANN=abc'' @ TAB # ''GT:DP'' @ TAB # ''1/1:12'' @ [LF])\<rparr> (snps ! 0) =
     Inr [''rs762551'', ''chr15:74749576'', ''A'', ''G'', ''0/1'', ''ANN=xyz'']"
proof -
  have d: "data_lines (bcftools_view \<lparr>status = (\<lambda>c. 0),
      bcftools_view = (\<lambda>p. ''#CHROM'' @ [LF] @
        ''chr15'' @ TAB # ''74749576'' @ TAB # ''.'' @ TAB # ''A'' @ TAB # ''G'' @ TAB # ''50'' @ TAB #
        ''PASS'' @ TAB # ''ANN=xyz'' @ TAB # ''GT:DP'' @ TAB # ''0/1:30'' @ [LF] @
        ''chr15'' @ TAB # ''74749576'' @ TAB # ''.'' @ TAB # ''C'' @ TAB # ''T'' @ TAB # ''9'' @ TAB #
        ''PASS'' @ TAB # ''ANN=abc'' @ TAB # ''GT:DP'' @ TAB # ''1/1:12'' @ [LF])\<rparr> (position' (snps ! 0))) =
     [''chr15'' @ TAB # ''74749576'' @ TAB # ''.'' @ TAB # ''A'' @ TAB # ''G'' @ TAB # ''50'' @ TAB #
        ''PASS'' @ TAB # ''ANN=xyz'' @ TAB # ''GT:DP'' @ TAB # ''0/1:30'',
      ''chr15'' @ TAB # ''74749576'' @ TAB # ''.'' @ TAB # ''C'' @ TAB # ''T'' @ TAB # ''9'' @ TAB #
        ''PASS'' @ TAB # ''ANN=abc'' @ TAB # ''GT:DP'' @ TAB # ''1/1:12'']"
    by (simp add: eval_defs)
  have "extract_row ''rs762551'' ''chr15:74749576''
      ((''chr15'' @ TAB # ''74749576'' @ TAB # ''.'' @ TAB # ''A'' @ TAB # ''G'' @ TAB # ''50'' @ TAB #
        ''PASS'' @ TAB # ''ANN=xyz'' @ TAB # ''GT:DP'' @ TAB # ''0/1:30'') @ [LF]) =
     Inr [''rs762551'', ''chr15:74749576'', ''A'', ''G'', ''0/1'', ''ANN=xyz'']"
    by (simp add: eval_defs)
  with first_line_only [OF d] have "extract_snp \<lparr>status = (\<lambda>c. 0),
      bcftools_view = (\<lambda>p. ''#CHROM'' @ [LF] @
        ''chr15'' @ TAB # ''74749576'' @ TAB # ''.'' @ TAB # ''A'' @ TAB # ''G'' @ TAB # ''50'' @ TAB #
        ''PASS'' @ TAB # ''ANN=xyz'' @ TAB # ''GT:DP'' @ TAB # ''0/1:30'' @ [LF] @
        ''chr15'' @ TAB # ''74749576'' @ TAB # ''.'' @ TAB # ''C'' @ TAB # ''T'' @ TAB # ''9'' @ TAB #
        ''PASS'' @ TAB # ''ANN=abc'' @ TAB # ''GT:DP'' @ TAB # ''1/1:12'' @ [LF])\<rparr> (snps ! 0) =
     Inr [''rs762551'', ''chr15:74749576'', ''A'', ''G'', ''0/1'', ''ANN=xyz'']"
    by (simp add: snps_def)
  with d show ?thesis
    by (simp only: simp_thms)
qed

section \<open>The whole run\<close>

text \<open>
  C4. The report of a run that completes has six rows: the header, then one row of six
  fields for each of \<open>rs762551\<close>, \<open>rs2069514\<close>, \<open>rs2472300\<close>, \<open>rs2472304\<close>, \<open>rs2470893\<close>,
  in this order.
\<close>

theorem report_rows_in_order:
  assumes "main env = Inr rep"
  shows "length rep = 6 \<and> rep ! 0 = header_row \<and> (\<forall>r\<in>set (tl rep). length r = 6) \<and>
         map (\<lambda>r. r ! 0) (tl rep) =
           [''rs762551'', ''rs2069514'', ''rs2472300'', ''rs2472304'', ''rs2470893'']"
proof -
  have "0 < length snps"
    by (simp add: length_snps)
  from main_row [OF assms this] have len: "length rep = 6" and hd: "rep ! 0 = header_row"
    by (simp_all add: length_snps)
  have key: "length (tl rep ! i) = 6 \<and> tl rep ! i ! 0 = id' (snps ! i)" if "i < 5" for i
    using final_row_key [OF assms, of i] that len by (simp add: length_snps nth_tl)
  have "\<forall>r\<in>set (tl rep). length r = 6"
    using key len by (auto simp: in_set_conv_nth)
  moreover have "map (\<lambda>r. r ! 0) (tl rep) = map id' snps"
    using key len by (intro nth_equalityI) (simp_all add: length_snps)
  moreover have "map id' snps =
      [''rs762551'', ''rs2069514'', ''rs2472300'', ''rs2472304'', ''rs2470893'']"
    by (simp add: snps_def)
  ultimately show ?thesis
    using len hd by simp
qed

theorem report_rows_in_order_witness:
  "main \<lparr>status = (\<lambda>c. if c \<in> set setup_commands then 0 else 1),
      bcftools_view = (\<lambda>p. if p = ''chr15:74749576''
        then ''##fileformat=VCFv4.2'' @ [LF] @
        ''chr15'' @ TAB # ''74749576'' @ TAB # ''.'' @ TAB # ''A'' @ TAB # ''G'' @ TAB # ''50'' @ TAB #
        ''PASS'' @ TAB # ''ANN=xyz'' @ TAB # ''GT:DP'' @ TAB # ''0/1:30'' @ [LF]
        else [])\<rparr> =
     Inr [header_row,
      [''rs762551'', ''chr15:74749576'', ''A'', ''G'', ''Heterozygous'', ''ANN=xyz''],
      [''rs2069514'', ''chr15:74754823'', ''not found'', ''not found'', ''not found'', ''not found''],
      [''rs2472300'', ''chr15:74749234'', ''not found'', ''not found'', ''not found'', ''not found''],
      [''rs2472304'', ''chr15:74751897'', ''not found'', ''not found'', ''not found'', ''not found''],
      [''rs2470893'', ''chr15:74745879'', ''not found'', ''not found'', ''not found'', ''not found'']] \<and>
   length [header_row,
      [''rs762551'', ''chr15:74749576'', ''A'', ''G'', ''Heterozygous'', ''ANN=xyz''],
      [''rs2069514'', ''chr15:74754823'', ''not found'', ''not found'', ''not found'', ''not found''],
      [''rs2472300'', ''chr15:74749234'', ''not found'', ''not found'', ''not found'', ''not found''],
      [''rs2472304'', ''chr15:74751897'', ''not found'', ''not found'', ''not found'', ''not found''],
      [''rs2470893'', ''chr15:74745879'', ''not found'', ''not found'', ''not found'', ''not found'']] = 6 \<and>
   map (\<lambda>r. r ! 0) (tl [header_row,
      [''rs762551'', ''chr15:74749576'', ''A'', ''G'', ''Heterozygous'', ''ANN=xyz''],
      [''rs2069514'', ''chr15:74754823'', ''not found'', ''not found'', ''not found'', ''not found''],
      [''rs2472300'', ''chr15:74749234'', ''not found'', ''not found'', ''not found'', ''not found''],
      [''rs2472304'', ''chr15:74751897'', ''not found'', ''not found'', ''not found'', ''not found''],
      [''rs2470893'', ''chr15:74745879'', ''not found'', ''not found'', ''not found'', ''not found'']]) =
     [''rs762551'', ''rs2069514'', ''rs2472300'', ''rs2472304'', ''rs2470893'']"
  using report_rows_in_order [OF main_example] main_example
  by simp

text \<open>
  C6. When all setup commands succeed and the query at \<open>chr15:74749576\<close> yields the single
  data line \<open>chr15 74749576 . A G 50 PASS ANN=xyz GT:DP 0/1:30\<close> (tab-separated), the run
  completes and the row after the header is
  \<open>rs762551, chr15:74749576, A, G, Heterozygous, ANN=xyz\<close>.
\<close>

theorem end_to_end_rs762551:
  assumes "\<forall>c\<in>set setup_commands. status env c = 0"
    and "data_lines (bcftools_view env ''chr15:74749576'') =
          [''chr15'' @ TAB # ''74749576'' @ TAB # ''.'' @ TAB # ''A'' @ TAB # ''G'' @ TAB # ''50'' @ TAB #
            ''PASS'' @ TAB # ''ANN=xyz'' @ TAB # ''GT:DP'' @ TAB # ''0/1:30'']"
  shows "\<exists>rep. main env = Inr rep \<and>
           rep ! 1 = [''rs762551'', ''chr15:74749576'', ''A'', ''G'', ''Heterozygous'', ''ANN=xyz'']"
proof -
  from main_completes [OF assms(1)] obtain rep where rep: "main env = Inr rep"
    by blast
  have s0: "id' (snps ! 0) = ''rs762551''" "position' (snps ! 0) = ''chr15:74749576''"
    by (simp_all add: snps_def)
  have "extract_snp env (snps ! 0) =
      extract_row ''rs762551'' ''chr15:74749576''
        ((''chr15'' @ TAB # ''74749576'' @ TAB # ''.'' @ TAB # ''A'' @ TAB # ''G'' @ TAB # ''50'' @ TAB #
            ''PASS'' @ TAB # ''ANN=xyz'' @ TAB # ''GT:DP'' @ TAB # ''0/1:30'') @ [LF])"
    using extract_snp_first_line [of env "snps ! 0"] assms(2) by (simp only: s0)
  also have "\<dots> = Inr [''rs762551'', ''chr15:74749576'', ''A'', ''G'', ''0/1'', ''ANN=xyz'']"
    by (simp add: extract_row_def strip_def isspace_def TAB_def LF_def CR_def py_get_def
        and_then_def Let_def)
  finally have "map_row [''rs762551'', ''chr15:74749576'', ''A'', ''G'', ''0/1'', ''ANN=xyz''] =
      Inr (rep ! Suc 0)"
    using rep by (intro main_row_eq) (simp_all add: length_snps)
  then have "rep ! 1 = [''rs762551'', ''chr15:74749576'', ''A'', ''G'', ''Heterozygous'', ''ANN=xyz'']"
    by (simp add: map_row_eq genotype_label_def)
  with rep show ?thesis by blast
qed

theorem end_to_end_rs762551_witness:
  "map (status \<lparr>status = (\<lambda>c. if c \<in> set setup_commands then 0 else 1),
      bcftools_view = (\<lambda>p. if p = ''chr15:74749576''
        then ''##fileformat=VCFv4.2'' @ [LF] @
        ''chr15'' @ TAB # ''74749576'' @ TAB # ''.'' @ TAB # ''A'' @ TAB # ''G'' @ TAB # ''50'' @ TAB #
        ''PASS'' @ TAB # ''ANN=xyz'' @ TAB # ''GT:DP'' @ TAB # ''0/1:30'' @ [LF]
        else [])\<rparr>) setup_commands = [0, 0, 0, 0, 0, 0, 0] \<and>
   data_lines (bcftools_view \<lparr>status = (\<lambda>c. if c \<in> set setup_commands then 0 else 1),
      bcftools_view = (\<lambda>p. if p = ''chr15:74749576''
        then ''##fileformat=VCFv4.2'' @ [LF] @
        ''chr15'' @ TAB # ''74749576'' @ TAB # ''.'' @ TAB # ''A'' @ TAB # ''G'' @ TAB # ''50'' @ TAB #
        ''PASS'' @ TAB # ''ANN=xyz'' @ TAB # ''GT:DP'' @ TAB # ''0/1:30'' @ [LF]
        else [])\<rparr> ''chr15:74749576'') =
     [''chr15'' @ TAB # ''74749576'' @ TAB # ''.'' @ TAB # ''A'' @ TAB # ''G'' @ TAB # ''50'' @ TAB #
        ''PASS'' @ TAB # ''ANN=xyz'' @ TAB # ''GT:DP'' @ TAB # ''0/1:30''] \<and>
   (\<exists>rep. main \<lparr>status = (\<lambda>c. if c \<in> set setup_commands then 0 else 1),
      bcftools_view = (\<lambda>p. if p = ''chr15:74749576''
        then ''##fileformat=VCFv4.2'' @ [LF] @
        ''chr15'' @ TAB # ''74749576'' @ TAB # ''.'' @ TAB # ''A'' @ TAB # ''G'' @ TAB # ''50'' @ TAB #
        ''PASS'' @ TAB # ''ANN=xyz'' @ TAB # ''GT:DP'' @ TAB # ''0/1:30'' @ [LF]
        else [])\<rparr> = Inr rep \<and>
      rep ! 1 = [''rs762551'', ''chr15:74749576'', ''A'', ''G'', ''Heterozygous'', ''ANN=xyz''])"
proof -
  have s: "\<forall>c\<in>set setup_commands. status \<lparr>status = (\<lambda>c. if c \<in> set setup_commands then 0 else 1),
      bcftools_view = (\<lambda>p. if p = ''chr15:74749576''
        then ''##fileformat=VCFv4.2'' @ [LF] @
        ''chr15'' @ TAB # ''74749576'' @ TAB # ''.'' @ TAB # ''A'' @ TAB # ''G'' @ TAB # ''50'' @ TAB #
        ''PASS'' @ TAB # ''ANN=xyz'' @ TAB # ''GT:DP'' @ TAB # ''0/1:30'' @ [LF]
        else [])\<rparr> c = 0"
    by simp
  have m: "map (status \<lparr>status = (\<lambda>c. if c \<in> set setup_commands then 0 else 1),
      bcftools_view = (\<lambda>p. if p = ''chr15:74749576''
        then ''##fileformat=VCFv4.2'' @ [LF] @
        ''chr15'' @ TAB # ''74749576'' @ TAB # ''.'' @ TAB # ''A'' @ TAB # ''G'' @ TAB # ''50'' @ TAB #
        ''PASS'' @ TAB # ''ANN=xyz'' @ TAB # ''GT:DP'' @ TAB # ''0/1:30'' @ [LF]
        else [])\<rparr>) setup_commands = [0, 0, 0, 0, 0, 0, 0]"
    by (simp add: setup_commands_def)
  have d: "data_lines (bcftools_view \<lparr>status = (\<lambda>c. if c \<in> set setup_commands then 0 else 1),
      bcftools_view = (\<lambda>p. if p = ''chr15:74749576''
        then ''##fileformat=VCFv4.2'' @ [LF] @
        ''chr15'' @ TAB # ''74749576'' @ TAB # ''.'' @ TAB # ''A'' @ TAB # ''G'' @ TAB # ''50'' @ TAB #
        ''PASS'' @ TAB # ''ANN=xyz'' @ TAB # ''GT:DP'' @ TAB # ''0/1:30'' @ [LF]
        else [])\<rparr> ''chr15:74749576'') =
     [''chr15'' @ TAB # ''74749576'' @ TAB # ''.'' @ TAB # ''A'' @ TAB # ''G'' @ TAB # ''50'' @ TAB #
        ''PASS'' @ TAB # ''ANN=xyz'' @ TAB # ''GT:DP'' @ TAB # ''0/1:30'']"
    by (simp add: eval_defs)
  from end_to_end_rs762551 [OF s d] m d show ?thesis
    by (simp only: simp_thms)
qed

text \<open>
  C7. Error policy. If a setup command exits with a non-zero status, the run ends with
  the \<open>CalledProcessError\<close> of such a command and no report. If every setup command exits
  with status 0, the run completes with a row for each SNP, whatever the exit statuses of
  the query and the filter are: the result of a run depends on the exit statuses of the
  setup commands only.
\<close>

theorem error_policy:
  "((\<exists>c\<in>set setup_commands. status env c \<noteq> 0) \<longrightarrow>
      (\<exists>c\<in>set setup_commands. status env c \<noteq> 0 \<and>
         main env = Inl (CalledProcessError (status env c) c))) \<and>
   ((\<forall>c\<in>set setup_commands. status env c = 0) \<longrightarrow>
      (\<exists>rep. main env = Inr rep \<and> length rep = Suc (length snps) \<and>
         (\<forall>i<length snps. rep ! Suc i ! 0 = id' (snps ! i)))) \<and>
   ((\<forall>c\<in>set setup_commands. st c = status env c) \<longrightarrow>
      main (env\<lparr>status := st\<rparr>) = main env)"
proof -
  have "\<exists>rep. main env = Inr rep \<and> length rep = Suc (length snps) \<and>
         (\<forall>i<length snps. rep ! Suc i ! 0 = id' (snps ! i))"
    if ok: "\<forall>c\<in>set setup_commands. status env c = 0"
  proof -
    from main_completes [OF ok] obtain rep where rep: "main env = Inr rep"
      by blast
    have "0 < length snps"
      by (simp add: length_snps)
    from main_row [OF rep this] have "length rep = Suc (length snps)"
      by simp
    with rep final_row_key [OF rep] show ?thesis
      by blast
  qed
  then show ?thesis
    using main_aborts main_status by blast
qed

theorem error_policy_witness:
  "status \<lparr>status = (\<lambda>c. if c \<in> set setup_commands then 0 else 1),
      bcftools_view = (\<lambda>p. if p = ''chr15:74749576''
        then ''##fileformat=VCFv4.2'' @ [LF] @
        ''chr15'' @ TAB # ''74749576'' @ TAB # ''.'' @ TAB # ''A'' @ TAB # ''G'' @ TAB # ''50'' @ TAB #
        ''PASS'' @ TAB # ''ANN=xyz'' @ TAB # ''GT:DP'' @ TAB # ''0/1:30'' @ [LF]
        else [])\<rparr> (bcftools_cmd ''chr15:74749576'') = 1 \<and>
   status \<lparr>status = (\<lambda>c. if c \<in> set setup_commands then 0 else 1),
      bcftools_view = (\<lambda>p. if p = ''chr15:74749576''
        then ''##fileformat=VCFv4.2'' @ [LF] @
        ''chr15'' @ TAB # ''74749576'' @ TAB # ''.'' @ TAB # ''A'' @ TAB # ''G'' @ TAB # ''50'' @ TAB #
        ''PASS'' @ TAB # ''ANN=xyz'' @ TAB # ''GT:DP'' @ TAB # ''0/1:30'' @ [LF]
        else [])\<rparr> (grep_cmd ''rs762551'') = 1 \<and>
   (\<exists>rep. main \<lparr>status = (\<lambda>c. if c \<in> set setup_commands then 0 else 1),
      bcftools_view = (\<lambda>p. if p = ''chr15:74749576''
        then ''##fileformat=VCFv4.2'' @ [LF] @
        ''chr15'' @ TAB # ''74749576'' @ TAB # ''.'' @ TAB # ''A'' @ TAB # ''G'' @ TAB # ''50'' @ TAB #
        ''PASS'' @ TAB # ''ANN=xyz'' @ TAB # ''GT:DP'' @ TAB # ''0/1:30'' @ [LF]
        else [])\<rparr> = Inr rep \<and> length rep = 6) \<and>
   main \<lparr>status = (\<lambda>c. if c = ''samtools index CYP1A2.bam'' then 1 else 0),
      bcftools_view = (\<lambda>p. [])\<rparr> =
     Inl (CalledProcessError 1 ''samtools index CYP1A2.bam'')"
proof -
  have q: "status \<lparr>status = (\<lambda>c. if c \<in> set setup_commands then 0 else 1),
      bcftools_view = (\<lambda>p. if p = ''chr15:74749576''
        then ''##fileformat=VCFv4.2'' @ [LF] @
        ''chr15'' @ TAB # ''74749576'' @ TAB # ''.'' @ TAB # ''A'' @ TAB # ''G'' @ TAB # ''50'' @ TAB #
        ''PASS'' @ TAB # ''ANN=xyz'' @ TAB # ''GT:DP'' @ TAB # ''0/1:30'' @ [LF]
        else [])\<rparr> (bcftools_cmd ''chr15:74749576'') = 1"
    by (simp add: setup_commands_def bcftools_cmd_def)
  have g: "status \<lparr>status = (\<lambda>c. if c \<in> set setup_commands then 0 else 1),
      bcftools_view = (\<lambda>p. if p = ''chr15:74749576''
        then ''##fileformat=VCFv4.2'' @ [LF] @
        ''chr15'' @ TAB # ''74749576'' @ TAB # ''.'' @ TAB # ''A'' @ TAB # ''G'' @ TAB # ''50'' @ TAB #
        ''PASS'' @ TAB # ''ANN=xyz'' @ TAB # ''GT:DP'' @ TAB # ''0/1:30'' @ [LF]
        else [])\<rparr> (grep_cmd ''rs762551'') = 1"
    by (simp add: setup_commands_def grep_cmd_def temp_file_def)
  have ok: "\<forall>c\<in>set setup_commands. status \<lparr>status = (\<lambda>c. if c \<in> set setup_commands then 0 else 1),
      bcftools_view = (\<lambda>p. if p = ''chr15:74749576''
        then ''##fileformat=VCFv4.2'' @ [LF] @
        ''chr15'' @ TAB # ''74749576'' @ TAB # ''.'' @ TAB # ''A'' @ TAB # ''G'' @ TAB # ''50'' @ TAB #
        ''PASS'' @ TAB # ''ANN=xyz'' @ TAB # ''GT:DP'' @ TAB # ''0/1:30'' @ [LF]
        else [])\<rparr> c = 0"
    by simp
  from error_policy [of "\<lparr>status = (\<lambda>c. if c \<in> set setup_commands then 0 else 1),
      bcftools_view = (\<lambda>p. if p = ''chr15:74749576''
        then ''##fileformat=VCFv4.2'' @ [LF] @
        ''chr15'' @ TAB # ''74749576'' @ TAB # ''.'' @ TAB # ''A'' @ TAB # ''G'' @ TAB # ''50'' @ TAB #
        ''PASS'' @ TAB # ''ANN=xyz'' @ TAB # ''GT:DP'' @ TAB # ''0/1:30'' @ [LF]
        else [])\<rparr>", THEN conjunct2, THEN conjunct1, THEN mp, OF ok]
  obtain rep where "main \<lparr>status = (\<lambda>c. if c \<in> set setup_commands then 0 else 1),
      bcftools_view = (\<lambda>p. if p = ''chr15:74749576''
        then ''##fileformat=VCFv4.2'' @ [LF] @
        ''chr15'' @ TAB # ''74749576'' @ TAB # ''.'' @ TAB # ''A'' @ TAB # ''G'' @ TAB # ''50'' @ TAB #
        ''PASS'' @ TAB # ''ANN=xyz'' @ TAB # ''GT:DP'' @ TAB # ''0/1:30'' @ [LF]
        else [])\<rparr> = Inr rep"
    and "length rep = Suc (length snps)"
    by blast
  then have a: "\<exists>rep. main \<lparr>status = (\<lambda>c. if c \<in> set setup_commands then 0 else 1),
      bcftools_view = (\<lambda>p. if p = ''chr15:74749576''
        then ''##fileformat=VCFv4.2'' @ [LF] @
        ''chr15'' @ TAB # ''74749576'' @ TAB # ''.'' @ TAB # ''A'' @ TAB # ''G'' @ TAB # ''50'' @ TAB #
        ''PASS'' @ TAB # ''ANN=xyz'' @ TAB # ''GT:DP'' @ TAB # ''0/1:30'' @ [LF]
        else [])\<rparr> = Inr rep \<and> length rep = 6"
    by (auto simp: length_snps)
  have bad: "\<exists>c\<in>set setup_commands. status \<lparr>status = (\<lambda>c. if c = ''samtools index CYP1A2.bam'' then 1 else 0),
      bcftools_view = (\<lambda>p. [])\<rparr> c \<noteq> 0"
    by (simp add: setup_commands_def)
  from error_policy [of "\<lparr>status = (\<lambda>c. if c = ''samtools index CYP1A2.bam'' then 1 else 0),
      bcftools_view = (\<lambda>p. [])\<rparr>", THEN conjunct1, THEN mp, OF bad]
  obtain c where c: "status \<lparr>status = (\<lambda>c. if c = ''samtools index CYP1A2.bam'' then 1 else 0),
      bcftools_view = (\<lambda>p. [])\<rparr> c \<noteq> 0"
    and m: "main \<lparr>status = (\<lambda>c. if c = ''samtools index CYP1A2.bam'' then 1 else 0),
      bcftools_view = (\<lambda>p. [])\<rparr> =
      Inl (CalledProcessError (status \<lparr>status = (\<lambda>c. if c = ''samtools index CYP1A2.bam'' then 1 else 0),
      bcftools_view = (\<lambda>p. [])\<rparr> c) c)"
    by blast
  from c have "c = ''samtools index CYP1A2.bam''"
    by (simp split: if_splits)
  with m have b: "main \<lparr>status = (\<lambda>c. if c = ''samtools index CYP1A2.bam'' then 1 else 0),
      bcftools_view = (\<lambda>p. [])\<rparr> =
     Inl (CalledProcessError 1 ''samtools index CYP1A2.bam'')"
    by simp
  from q g a b show ?thesis
    by (simp only: simp_thms)
qed

section \<open>The mapping pass\<close>

text \<open>
  C2. The genotype mapping acts on the fifth field alone, as a function of its value: a
  row with at least five fields gets that field replaced by its label, where \<open>0/0\<close> becomes
  \<open>Homozygous Reference\<close>, \<open>0/1\<close> becomes \<open>Heterozygous\<close>, \<open>1/1\<close> becomes
  \<open>Homozygous Alternate\<close>, and every other value is its own label.
\<close>

theorem genotype_mapping:
  assumes "5 \<le> length r"
  shows "map_row r = Inr (r[4 := genotype_label (r ! 4)]) \<and>
         (r ! 4 = ''0/0'' \<longrightarrow> genotype_label (r ! 4) = ''Homozygous Reference'') \<and>
         (r ! 4 = ''0/1'' \<longrightarrow> genotype_label (r ! 4) = ''Heterozygous'') \<and>
         (r ! 4 = ''1/1'' \<longrightarrow> genotype_label (r ! 4) = ''Homozygous Alternate'') \<and>
         (r ! 4 \<noteq> ''0/0'' \<and> r ! 4 \<noteq> ''0/1'' \<and> r ! 4 \<noteq> ''1/1'' \<longrightarrow>
            genotype_label (r ! 4) = r ! 4)"
  using assms by (simp add: map_row_eq genotype_label_def)

theorem genotype_mapping_witness:
  "map_row [''rs762551'', ''chr15:74749576'', ''A'', ''G'', ''0/1'', ''ANN=xyz''] =
     Inr [''rs762551'', ''chr15:74749576'', ''A'', ''G'', ''Heterozygous'', ''ANN=xyz''] \<and>
   map_row [''rs762551'', ''chr15:74749576'', ''A'', ''G'', ''0|1'', ''ANN=xyz''] =
     Inr [''rs762551'', ''chr15:74749576'', ''A'', ''G'', ''0|1'', ''ANN=xyz''] \<and>
   map_row [''rs762551'', ''chr15:74749576'', ''A'', ''G,T'', ''1/2'', ''ANN=xyz''] =
     Inr [''rs762551'', ''chr15:74749576'', ''A'', ''G,T'', ''1/2'', ''ANN=xyz''] \<and>
   map_row [''rs762551'', ''chr15:74749576'', ''not found'', ''not found'', ''not found'', ''not found''] =
     Inr [''rs762551'', ''chr15:74749576'', ''not found'', ''not found'', ''not found'', ''not found'']"
  using genotype_mapping [of "[''rs762551'', ''chr15:74749576'', ''A'', ''G'', ''0/1'', ''ANN=xyz'']"]
    genotype_mapping [of "[''rs762551'', ''chr15:74749576'', ''A'', ''G'', ''0|1'', ''ANN=xyz'']"]
    genotype_mapping [of "[''rs762551'', ''chr15:74749576'', ''A'', ''G,T'', ''1/2'', ''ANN=xyz'']"]
    genotype_mapping [of "[''rs762551'', ''chr15:74749576'', ''not found'', ''not found'', ''not found'', ''not found'']"]
  by simp

text \<open>
  C5. The mapping pass is idempotent: a report that the pass has produced is returned by
  a second pass as it is, since every row of it is left unchanged by the loop body (the
  three labels are none of the three codes). The pass returns a report for every report
  that has a header row.
\<close>

theorem mapping_pass_idempotent:
  "(mapping_pass csv = Inr csv' \<longrightarrow>
      mapping_pass csv' = Inr csv' \<and> (\<forall>r\<in>set (tl csv'). map_row r = Inr r)) \<and>
   (csv \<noteq> [] \<longrightarrow> (\<exists>out. mapping_pass csv = Inr out))"
proof (cases csv)
  case Nil
  then show ?thesis by (simp add: mapping_pass_def)
next
  case (Cons header reader)
  have "mapping_pass csv' = Inr csv' \<and> (\<forall>r\<in>set (tl csv'). map_row r = Inr r)"
    if "mapping_pass csv = Inr csv'"
  proof -
    from that Cons have csv': "csv' = header #
        map (\<lambda>r. if 5 \<le> length r then r[4 := genotype_label (r ! 4)] else r) reader"
      by (simp add: mapping_pass_Cons)
    have "mapping_pass csv' = Inr csv'"
      unfolding csv' mapping_pass_Cons by (simp add: genotype_label_idem)
    moreover have "\<forall>r\<in>set (tl csv'). map_row r = Inr r"
      unfolding csv' by (auto simp: map_row_eq genotype_label_idem)
    ultimately show ?thesis by blast
  qed
  moreover have "\<exists>out. mapping_pass csv = Inr out"
    using Cons by (simp add: mapping_pass_Cons)
  ultimately show ?thesis by blast
qed

theorem mapping_pass_idempotent_witness:
  "mapping_pass [header_row, [''rs1'', ''chr1:1'', ''A'', ''G'', ''0/0'', ''x''], [''short'']] =
     Inr [header_row, [''rs1'', ''chr1:1'', ''A'', ''G'', ''Homozygous Reference'', ''x''], [''short'']] \<and>
   mapping_pass [header_row, [''rs1'', ''chr1:1'', ''A'', ''G'', ''Homozygous Reference'', ''x''], [''short'']] =
     Inr [header_row, [''rs1'', ''chr1:1'', ''A'', ''G'', ''Homozygous Reference'', ''x''], [''short'']]"
proof -
  have first: "mapping_pass [header_row, [''rs1'', ''chr1:1'', ''A'', ''G'', ''0/0'', ''x''], [''short'']] =
     Inr [header_row, [''rs1'', ''chr1:1'', ''A'', ''G'', ''Homozygous Reference'', ''x''], [''short'']]"
    by (simp add: mapping_pass_def map_row_def py_get_def py_set_def and_then_def)
  from mapping_pass_idempotent [THEN conjunct1, THEN mp, OF first] first show ?thesis by blast
qed

text \<open>
  C9. Frame of the mapping pass: on a report with a header row, the pass returns the same
  header, as many rows in the same order, each of the same width, and every field other
  than the fifth is the one that was read. (On a file without any row \<^verbatim>\<open>next(reader)\<close>
  raises before the file is opened for writing.)
\<close>

theorem mapping_pass_frame:
  "\<exists>rows'. mapping_pass (header # rows) = Inr (header # rows') \<and>
      length rows' = length rows \<and>
      (\<forall>i<length rows. length (rows' ! i) = length (rows ! i) \<and>
         (\<forall>j<length (rows ! i). j \<noteq> 4 \<longrightarrow> rows' ! i ! j = rows ! i ! j))"
proof -
  let ?relabel = "\<lambda>r. if 5 \<le> length r then r[4 := genotype_label (r ! 4)] else r"
  have pass: "mapping_pass (header # rows) = Inr (header # map ?relabel rows)"
    by (rule mapping_pass_Cons)
  have width: "length (?relabel r) = length r" for r :: row
    by simp
  have others: "?relabel r ! j = r ! j" if "j \<noteq> 4" for r :: row and j
    using that by simp
  have "length (map ?relabel rows) = length rows"
    by simp
  moreover have "\<forall>i<length rows. length (map ?relabel rows ! i) = length (rows ! i) \<and>
         (\<forall>j<length (rows ! i). j \<noteq> 4 \<longrightarrow> map ?relabel rows ! i ! j = rows ! i ! j)"
    using width others by (simp del: if_split)
  ultimately show ?thesis
    using pass by blast
qed

theorem mapping_pass_frame_witness:
  "\<exists>rows'. mapping_pass [[''h0'', ''h1'', ''h2'', ''h3'', ''0/0'', ''h5''],
                            [''rs1'', ''chr1:1'', ''A'', ''G'', ''1/1'', ''x'']] =
              Inr ([''h0'', ''h1'', ''h2'', ''h3'', ''0/0'', ''h5''] # rows') \<and>
      length rows' = 1 \<and> length (rows' ! 0) = 6 \<and>
      rows' ! 0 ! 0 = ''rs1'' \<and> rows' ! 0 ! 1 = ''chr1:1'' \<and> rows' ! 0 ! 2 = ''A'' \<and>
      rows' ! 0 ! 3 = ''G'' \<and> rows' ! 0 ! 5 = ''x''"
  using mapping_pass_frame [of "[''h0'', ''h1'', ''h2'', ''h3'', ''0/0'', ''h5'']"
      "[[''rs1'', ''chr1:1'', ''A'', ''G'', ''1/1'', ''x'']]"]
  by (auto simp: numeral_eq_Suc)

text \<open>
  C10. The loop body never raises: the fifth field is read and written only after the
  length test, and a row with fewer than five fields is appended as it is.
\<close>

theorem short_row_unchanged:
  "(\<exists>r'. map_row r = Inr r') \<and>
   (length r < 5 \<longrightarrow> map_row r = Inr r) \<and>
   (\<exists>rows'. mapping_pass (header # rows) = Inr (header # rows') \<and>
      (\<forall>i<length rows. length (rows ! i) < 5 \<longrightarrow> rows' ! i = rows ! i))"
proof -
  let ?relabel = "\<lambda>r. if 5 \<le> length r then r[4 := genotype_label (r ! 4)] else r"
  have total: "\<exists>r'. map_row r = Inr r'"
  proof (cases "5 \<le> length r")
    case True
    then have "4 < length r" by simp
    then show ?thesis
      by (simp add: map_row_def)
  next
    case False
    then show ?thesis
      by (simp add: map_row_def)
  qed
  have short: "length r < 5 \<longrightarrow> map_row r = Inr r"
    by (simp add: map_row_def)
  have "mapping_pass (header # rows) = Inr (header # map ?relabel rows)"
    by (rule mapping_pass_Cons)
  moreover have "\<forall>i<length rows. length (rows ! i) < 5 \<longrightarrow> map ?relabel rows ! i = rows ! i"
    by simp
  ultimately have "\<exists>rows'. mapping_pass (header # rows) = Inr (header # rows') \<and>
      (\<forall>i<length rows. length (rows ! i) < 5 \<longrightarrow> rows' ! i = rows ! i)"
    by blast
  with total short show ?thesis
    by blast
qed

theorem short_row_unchanged_witness:
  "map_row [''rs1'', ''chr1:1'', ''A'', ''G''] = Inr [''rs1'', ''chr1:1'', ''A'', ''G''] \<and>
   map_row [] = Inr []"
  using short_row_unchanged [of "[''rs1'', ''chr1:1'', ''A'', ''G'']"]
    short_row_unchanged [of "[]"]
  by simp

end
